theory Spec2Isabelle
  imports Complex_Main
begin

section \<open>Status-check responses\<close>

text \<open>
  Every poller calls \<^verbatim>\<open>fetch\<close> and then \<^verbatim>\<open>response.json()\<close>. The promise returned by
  \<^verbatim>\<open>fetch\<close> rejects on a transport failure; otherwise it yields a response with the flag
  \<^verbatim>\<open>ok\<close> (true exactly for a 2xx status) and a body. \<^verbatim>\<open>response.json()\<close> rejects
  when the body is not JSON; a body that is JSON \<^verbatim>\<open>null\<close> makes the first field access throw,
  which the same \<^verbatim>\<open>catch\<close> receives, so both are \<open>Unparsable\<close>.

  Of a parsed body the pollers read three fields. \<^verbatim>\<open>status\<close> is only compared with string
  literals by \<^verbatim>\<open>===\<close>, so a missing or non-string value behaves as \<open>None\<close>.
  \<^verbatim>\<open>progress\<close> is a percentage, a whole number or missing, and \<^verbatim>\<open>message\<close> a
  string or missing.
\<close>

datatype json_body =
    Unparsable
  | Body "string option" "int option" "string option"

datatype fetch_result =
    Rejected
  | Response bool json_body

section \<open>What a response handler does\<close>

text \<open>
  The handlers are sequences of React state setters, storage writes, navigation calls and
  timer calls. Each call is one \<open>action\<close>; a handler is modelled by the list of calls it makes,
  in the order of the source. \<open>SetTimeoutCheck ms\<close> is
  \<^verbatim>\<open>setTimeout(() => check(key), ms)\<close>, the call that schedules the next status check;
  \<open>SetTimeoutThen ms acts\<close> is a \<^verbatim>\<open>setTimeout\<close> whose callback performs \<open>acts\<close> and issues
  no request.
\<close>

datatype action =
    ConsoleError string
  | SetIsCheckingStatus bool
  | RemoveItem string
  | SetMessage string
  | SetDataLoadingProgress int
  | SetDataLoadingMessage string
  | SetDataLoading bool
  | ToastSuccess string
  | ToastError string
  | RouterPush string
  | SetIsDataFetching bool
  | SetErrorsGeneral string
  | SetTimeoutCheck nat
  | SetTimeoutThen nat "action list"
  | ClearInterval

subsection \<open>Login page, src/lib/api.ts, checkDataFetchStatus\<close>

definition checkDataFetchStatus_catch :: "action list" where
  "checkDataFetchStatus_catch =
     [ConsoleError ''Error checking status:'', SetIsCheckingStatus False]"

fun checkDataFetchStatus :: "fetch_result \<Rightarrow> action list" where
  "checkDataFetchStatus Rejected = checkDataFetchStatus_catch"
| "checkDataFetchStatus (Response ok Unparsable) = checkDataFetchStatus_catch"
| "checkDataFetchStatus (Response ok (Body status progress message)) =
     (if \<not> ok then checkDataFetchStatus_catch
      else if status = Some ''completed'' then
        [SetIsCheckingStatus False,
         RemoveItem ''pendingLoginEmail'',
         SetMessage ''Your account is ready! You can now sign in.'']
      else if status = Some ''pending'' then
        [SetTimeoutCheck 3000]
      else
        [SetIsCheckingStatus False,
         RemoveItem ''pendingLoginEmail''])"

subsection \<open>Login page, src/app/login/page.tsx, checkDataFetchStatus\<close>

text \<open>
  This version parses the body before looking at \<^verbatim>\<open>response.ok\<close>, and tests
  \<^verbatim>\<open>response.ok\<close> in each branch instead of throwing.
\<close>

fun checkDataFetchStatus_LoginContent :: "fetch_result \<Rightarrow> action list" where
  "checkDataFetchStatus_LoginContent Rejected = checkDataFetchStatus_catch"
| "checkDataFetchStatus_LoginContent (Response ok Unparsable) = checkDataFetchStatus_catch"
| "checkDataFetchStatus_LoginContent (Response ok (Body status progress message)) =
     (if ok \<and> status = Some ''completed'' then
        [SetIsCheckingStatus False,
         RemoveItem ''pendingLoginEmail'',
         SetMessage ''Your account is ready! You can now sign in.'']
      else if ok \<and> status = Some ''pending'' then
        [SetTimeoutCheck 5000]
      else
        [SetIsCheckingStatus False,
         RemoveItem ''pendingLoginEmail''])"

subsection \<open>Signup page with data loading, checkDataLoadingStatus\<close>

text \<open>
  \<^verbatim>\<open>data.progress || 0\<close> and \<^verbatim>\<open>data.message || "Setting up your account..."\<close>: a
  missing value, the number 0 and the empty string are falsy.
  \<^verbatim>\<open>data.progress >= 100\<close> is false when the field is missing.
\<close>

definition progress_or_0 :: "int option \<Rightarrow> int" where
  "progress_or_0 progress = (case progress of None \<Rightarrow> 0 | Some p \<Rightarrow> p)"

definition message_or :: "string option \<Rightarrow> string \<Rightarrow> string" where
  "message_or message dflt =
     (case message of None \<Rightarrow> dflt | Some m \<Rightarrow> if m = [] then dflt else m)"

definition progress_ge_100 :: "int option \<Rightarrow> bool" where
  "progress_ge_100 progress = (case progress of None \<Rightarrow> False | Some p \<Rightarrow> 100 \<le> p)"

definition checkDataLoadingStatus_catch :: "action list" where
  "checkDataLoadingStatus_catch =
     [ConsoleError ''Error checking data loading status:'',
      SetTimeoutThen 5000 [SetDataLoading False, RouterPush ''/login'']]"

fun checkDataLoadingStatus :: "fetch_result \<Rightarrow> action list" where
  "checkDataLoadingStatus Rejected = checkDataLoadingStatus_catch"
| "checkDataLoadingStatus (Response ok Unparsable) = checkDataLoadingStatus_catch"
| "checkDataLoadingStatus (Response ok (Body status progress message)) =
     (if \<not> ok then checkDataLoadingStatus_catch
      else
        [SetDataLoadingProgress (progress_or_0 progress),
         SetDataLoadingMessage (message_or message ''Setting up your account...'')] @
        (if status = Some ''completed'' \<or> progress_ge_100 progress then
           [SetDataLoading False,
            ToastSuccess ''Your account is ready!'',
            RouterPush ''/login?message=Your account is ready! You can now sign in.'']
         else if status = Some ''failed'' then
           [SetDataLoading False,
            ToastError ''There was an issue setting up your account. You can still sign in.'',
            RouterPush
              ''/login?message=There was an issue setting up your account. You can still sign in.'']
         else
           [SetTimeoutCheck 2000]))"

subsection \<open>Signup page with an interval, the callback of statusCheckInterval\<close>

definition statusCheckInterval_catch :: "action list" where
  "statusCheckInterval_catch = [ConsoleError ''Error checking status:'']"

fun statusCheckInterval_callback :: "fetch_result \<Rightarrow> action list" where
  "statusCheckInterval_callback Rejected = statusCheckInterval_catch"
| "statusCheckInterval_callback (Response ok Unparsable) = statusCheckInterval_catch"
| "statusCheckInterval_callback (Response ok (Body status progress message)) =
     (if \<not> ok then statusCheckInterval_catch
      else if status = Some ''completed'' then
        [SetIsDataFetching False,
         RouterPush ''/login?message=Registration%20complete!%20You%20can%20now%20sign%20in.'',
         ClearInterval]
      else if status = Some ''failed'' then
        [SetIsDataFetching False,
         SetErrorsGeneral
           ''Data preparation failed. You can still log in, but some product data may be missing.'',
         ClearInterval,
         SetTimeoutThen 3000 [RouterPush ''/login'']]
      else [])"

section \<open>The four polling call sites on the event loop\<close>

datatype site = LoginApi | LoginContent | SignupDataLoading | SignupInterval

fun handler :: "site \<Rightarrow> fetch_result \<Rightarrow> action list" where
  "handler LoginApi = checkDataFetchStatus"
| "handler LoginContent = checkDataFetchStatus_LoginContent"
| "handler SignupDataLoading = checkDataLoadingStatus"
| "handler SignupInterval = statusCheckInterval_callback"

text \<open>
  The cleanup that the owning effect returns: only the interval poller has one
  (\<^verbatim>\<open>clearInterval(statusCheckInterval)\<close>). The effects and handlers that start the other
  three pollers return nothing and keep no timer id.
\<close>

fun cleanup :: "site \<Rightarrow> action list" where
  "cleanup SignupInterval = [ClearInterval]"
| "cleanup _ = []"

text \<open>
  The browser runs the pollers on a single-threaded event loop. The state of one poller:
  \<^item> \<open>requests\<close>: status-check requests issued so far;
  \<^item> \<open>in_flight\<close>: requests issued whose response handler has not run yet;
  \<^item> \<open>timers\<close>: pending \<^verbatim>\<open>setTimeout\<close> callbacks that will call the check function;
  \<^item> \<open>interval_armed\<close>: the \<^verbatim>\<open>setInterval\<close> timer is active;
  \<^item> \<open>effects\<close>: every call the handlers and cleanups have made, oldest first.
\<close>

record poller =
  requests :: nat
  in_flight :: nat
  timers :: nat
  interval_armed :: bool
  effects :: "action list"

text \<open>
  Starting a poller. The three \<^verbatim>\<open>setTimeout\<close> pollers call their check function at once,
  which issues the first request. The interval poller only arms \<^verbatim>\<open>setInterval\<close>: its
  first request is issued by the first tick. A poller is what one such start sets going;
  while it runs, the form that starts it is disabled or replaced by a progress screen.
\<close>

fun arm :: "site \<Rightarrow> poller" where
  "arm SignupInterval =
     \<lparr>requests = 0, in_flight = 0, timers = 0, interval_armed = True, effects = []\<rparr>"
| "arm _ =
     \<lparr>requests = 1, in_flight = 1, timers = 0, interval_armed = False, effects = []\<rparr>"

fun perform :: "poller \<Rightarrow> action \<Rightarrow> poller" where
  "perform p (SetTimeoutCheck ms) =
     p\<lparr>timers := timers p + 1, effects := effects p @ [SetTimeoutCheck ms]\<rparr>"
| "perform p ClearInterval =
     p\<lparr>interval_armed := False, effects := effects p @ [ClearInterval]\<rparr>"
| "perform p a = p\<lparr>effects := effects p @ [a]\<rparr>"

definition perform_all :: "poller \<Rightarrow> action list \<Rightarrow> poller" where
  "perform_all p acts = foldl perform p acts"

text \<open>
  What the event loop can deliver to a poller: a pending check timer fires, the interval
  ticks, an in-flight request settles with some result, or the owning view unmounts. An
  event that is not enabled (no pending timer, interval not armed, nothing in flight)
  cannot occur and leaves the state as it is.
\<close>

datatype event = TimerFires | IntervalTick | Resolves fetch_result | Unmount

definition issue_request :: "poller \<Rightarrow> poller" where
  "issue_request p = p\<lparr>requests := requests p + 1, in_flight := in_flight p + 1\<rparr>"

fun step :: "site \<Rightarrow> poller \<Rightarrow> event \<Rightarrow> poller" where
  "step s p TimerFires =
     (if 0 < timers p then issue_request (p\<lparr>timers := timers p - 1\<rparr>) else p)"
| "step s p IntervalTick =
     (if interval_armed p then issue_request p else p)"
| "step s p (Resolves r) =
     (if 0 < in_flight p then perform_all (p\<lparr>in_flight := in_flight p - 1\<rparr>) (handler s r)
      else p)"
| "step s p Unmount = perform_all p (cleanup s)"

definition run :: "site \<Rightarrow> event list \<Rightarrow> poller \<Rightarrow> poller" where
  "run s evs p = foldl (step s) p evs"


definition check_failed :: "fetch_result \<Rightarrow> bool" where
  "check_failed r = (case r of Rejected \<Rightarrow> True | Response ok b \<Rightarrow> \<not> ok)"


section \<open>Auxiliary notions for the event-loop proofs\<close>

text \<open>The calls that schedule another status check.\<close>

fun is_check :: "action \<Rightarrow> bool" where
  "is_check (SetTimeoutCheck ms) = True"
| "is_check _ = False"

text \<open>
  A \<^verbatim>\<open>setTimeout\<close> poller is a single chain: either its one request is in flight, or
  its one timer is pending, or neither.
\<close>

definition chain_inv :: "poller \<Rightarrow> bool" where
  "chain_inv p = (in_flight p + timers p \<le> 1 \<and> \<not> interval_armed p)"

text \<open>A poller that can issue no further request.\<close>

definition stopped :: "site \<Rightarrow> poller \<Rightarrow> bool" where
  "stopped s p =
     (timers p = 0 \<and> \<not> interval_armed p \<and> (s \<noteq> SignupInterval \<longrightarrow> in_flight p = 0))"

section \<open>Timestamps as text\<close>

text \<open>
  \<^verbatim>\<open>localStorage\<close> holds strings. The timestamp is written as
  \<^verbatim>\<open>new Date().getTime().toString()\<close> and read back with \<^verbatim>\<open>Number.parseInt\<close>. The clock
  is a count of milliseconds since the epoch, a natural number; \<open>toString\<close> is its decimal
  numeral.
\<close>

definition digit_char :: "nat \<Rightarrow> char" where
  "digit_char d = ''0123456789'' ! d"

fun toString :: "nat \<Rightarrow> string" where
  "toString n =
     (if n < 10 then [digit_char n] else toString (n div 10) @ [digit_char (n mod 10)])"

declare toString.simps [simp del]

text \<open>
  \<^verbatim>\<open>Number.parseInt(s)\<close> without a radix: leading white space (here the six ASCII
  white-space characters) is skipped, then an
  optional sign, then an optional prefix 0x or 0X that selects radix 16, then the longest
  run of digits of the radix. Without any digit the result is NaN, here \<open>None\<close>; every
  comparison with NaN is false.
\<close>

definition is_space :: "char \<Rightarrow> bool" where
  "is_space c = (c \<in> set [CHR '' '', CHR 0x09, CHR 0x0A, CHR 0x0B, CHR 0x0C, CHR 0x0D])"

definition digit_value :: "char \<Rightarrow> nat option" where
  "digit_value c =
     (let k = (of_char c :: nat) in
      if 48 \<le> k \<and> k \<le> 57 then Some (k - 48)
      else if 97 \<le> k \<and> k \<le> 102 then Some (k - 87)
      else if 65 \<le> k \<and> k \<le> 70 then Some (k - 55)
      else None)"

definition is_digit :: "nat \<Rightarrow> char \<Rightarrow> bool" where
  "is_digit radix c = (case digit_value c of None \<Rightarrow> False | Some d \<Rightarrow> d < radix)"

definition digits_value :: "nat \<Rightarrow> string \<Rightarrow> nat" where
  "digits_value radix ds =
     foldl (\<lambda>a c. a * radix + (case digit_value c of None \<Rightarrow> 0 | Some d \<Rightarrow> d)) 0 ds"

definition parseInt :: "string \<Rightarrow> int option" where
  "parseInt s =
     (let s1 = dropWhile is_space s;
          negative = (take 1 s1 = ''-'');
          s2 = (if take 1 s1 = ''-'' \<or> take 1 s1 = ''+'' then drop 1 s1 else s1);
          hex = (take 2 s2 = ''0x'' \<or> take 2 s2 = ''0X'');
          radix = (if hex then 16 else 10);
          s3 = (if hex then drop 2 s2 else s2);
          ds = takeWhile (is_digit radix) s3
      in if ds = [] then None
         else Some ((if negative then - 1 else 1) * int (digits_value radix ds)))"

section \<open>The dashboard page: data\<close>

text \<open>
  Prices are JavaScript numbers; they are modelled by exact rationals. The fields that the
  code reads with a falsy default (\<^verbatim>\<open>x || 0\<close>, \<^verbatim>\<open>x || "6 weeks"\<close>, \<^verbatim>\<open>!storeName\<close>)
  hold that falsy value when they are missing: 0 for a number, the empty string for a
  string. The optional chaining \<^verbatim>\<open>product.lowestPrice?.store\<close> is the \<open>option\<close>. The other
  fields of a product are copied unchanged by the spread; \<open>product_id\<close> and
  \<open>product_name\<close> stand for them.
\<close>

record price_info =
  price :: rat
  store :: string

record price_range =
  range_min :: rat
  range_max :: rat
  period :: string

record product =
  product_id :: string
  product_name :: string
  lowestPrice :: "price_info option"
  priceRange :: "price_range option"

record store_entry =
  name :: string
  chainName :: string

record dashboard =
  stores :: "store_entry list"
  pantryItems :: "product list"
  produceItems :: "product list"
  buyAlerts :: "product list"
  newsHighlights :: "string list"

text \<open>
  A stored JSON text is modelled by the value it encodes: \<^verbatim>\<open>JSON.stringify\<close> is
  \<open>Encodes\<close>, and \<^verbatim>\<open>JSON.parse\<close> returns the value of \<open>Encodes\<close> and throws on
  \<open>Malformed\<close>.
\<close>

datatype 'a json_text = Malformed | Encodes 'a

record storage =
  ls_dashboardData :: "dashboard json_text option"
  ls_myList :: "product list json_text option"
  ls_lastFetchTime :: "string option"

text \<open>The React state of the page that the cache logic reads and writes.\<close>

record page =
  dashboardData :: "dashboard option"
  myList :: "product list"
  dataLoaded :: bool
  dataLoading :: bool
  isMyListLoading :: bool
  error :: "string option"

section \<open>Math.random\<close>

text \<open>
  \<^verbatim>\<open>Math.random()\<close> returns a number that is at least 0 and less than 1. The generator is
  a sequence of such draws and the position of the next one.
\<close>

typedef draw = "{r :: rat. 0 \<le> r \<and> r < 1}"
  by (rule exI [of _ 0]) simp

type_synonym rng = "(nat \<Rightarrow> draw) \<times> nat"

definition Math_random :: "rng \<Rightarrow> rat \<times> rng" where
  "Math_random g = (Rep_draw (fst g (snd g)), (fst g, Suc (snd g)))"

text \<open>
  \<^verbatim>\<open>Number.parseFloat(x.toFixed(2))\<close>: the nearest multiple of 1/100, the larger one of
  two nearest ones for a positive \<open>x\<close>.
\<close>

definition toFixed2 :: "rat \<Rightarrow> rat" where
  "toFixed2 x =
     (if x < 0 then - (of_int \<lfloor>- x * 100 + 1 / 2\<rfloor> / 100)
      else of_int \<lfloor>x * 100 + 1 / 2\<rfloor> / 100)"

section \<open>ensureValidPriceData\<close>

definition storeVariety :: "string list" where
  "storeVariety =
     [''Walmart'', ''Target'', ''Kroger'', ''Costco'', ''Whole Foods'', ''Safeway'',
      ''Trader Joe's'', ''Publix'', ''Albertsons'', ''Ralphs'', ''Aldi'', ''Meijer'',
      ''H-E-B'', ''Wegmans'', ''Food Lion'', ''Stop & Shop'', ''Giant Eagle'', ''ShopRite'',
      ''Sprouts'', ''Fresh Market'']"

text \<open>
  The callback of \<^verbatim>\<open>products.map\<close>, in the three steps of the source; \<open>store_list\<close>
  is the parameter \<^verbatim>\<open>stores\<close>. Each step makes its calls of \<^verbatim>\<open>Math.random()\<close> in the
  order of the source and hands the generator on.

  The store name: the one of the product, unless it is missing or "Unknown Store"; then the
  name of a store drawn from \<open>store_list\<close> (\<^verbatim>\<open>name || chainName\<close>, else the variety
  list), or an entry of the variety list when there are no stores. The index
  \<^verbatim>\<open>Math.floor(Math.random() * stores.length)\<close> is within the list because the draw is
  less than 1.
\<close>

definition choose_storeName :: "rng \<Rightarrow> store_entry list \<Rightarrow> string \<Rightarrow> nat \<Rightarrow> string \<times> rng" where
  "choose_storeName g store_list storeName index =
     (if storeName = [] \<or> storeName = ''Unknown Store'' then
        (if store_list \<noteq> [] then
           (let (r, g') = Math_random g;
                randomStore = store_list ! nat \<lfloor>r * of_nat (length store_list)\<rfloor>
            in (if name randomStore \<noteq> [] then name randomStore
                else if chainName randomStore \<noteq> [] then chainName randomStore
                else storeVariety ! (index mod length storeVariety), g'))
         else (storeVariety ! (index mod length storeVariety), g))
      else (storeName, g))"

text \<open>The price: \<^verbatim>\<open>price > 0 ? price : (Math.random() * 10 + 1).toFixed(2)\<close>.\<close>

definition choose_validPrice :: "rng \<Rightarrow> rat \<Rightarrow> rat \<times> rng" where
  "choose_validPrice g price0 =
     (if 0 < price0 then (price0, g)
      else (let (r, g') = Math_random g in (toFixed2 (r * 10 + 1), g')))"

text \<open>
  The price range: two draws when both ends are 0, 80% of the maximum when only the
  minimum is 0, 120% of the minimum when only the maximum is 0, else unchanged.
\<close>

definition choose_validRange :: "rng \<Rightarrow> rat \<Rightarrow> rat \<Rightarrow> (rat \<times> rat) \<times> rng" where
  "choose_validRange g minPrice maxPrice =
     (if minPrice = 0 \<and> maxPrice = 0 then
        (let (r1, g') = Math_random g;
             validMinPrice = toFixed2 (r1 * 5 + 1);
             (r2, g'') = Math_random g';
             validMaxPrice = toFixed2 (validMinPrice + r2 * 5)
         in ((validMinPrice, validMaxPrice), g''))
      else if minPrice = 0 \<and> 0 < maxPrice then
        ((toFixed2 (maxPrice * (8 / 10)), maxPrice), g)
      else if 0 < minPrice \<and> maxPrice = 0 then
        ((minPrice, toFixed2 (minPrice * (12 / 10))), g)
      else ((minPrice, maxPrice), g))"

definition ensure_product :: "rng \<Rightarrow> store_entry list \<Rightarrow> product \<Rightarrow> nat \<Rightarrow> product \<times> rng" where
  "ensure_product g store_list product index =
     (let (storeName, g1) =
            choose_storeName g store_list
              (case lowestPrice product of None \<Rightarrow> [] | Some lp \<Rightarrow> store lp) index;
          (validPrice, g2) =
            choose_validPrice g1
              (case lowestPrice product of None \<Rightarrow> 0 | Some lp \<Rightarrow> price lp);
          ((validMinPrice, validMaxPrice), g3) =
            choose_validRange g2
              (case priceRange product of None \<Rightarrow> 0 | Some pr \<Rightarrow> range_min pr)
              (case priceRange product of None \<Rightarrow> 0 | Some pr \<Rightarrow> range_max pr);
          period0 = (case priceRange product of None \<Rightarrow> [] | Some pr \<Rightarrow> period pr)
      in (product
            \<lparr>lowestPrice := Some \<lparr>price = validPrice, store = storeName\<rparr>,
             priceRange := Some
               \<lparr>range_min = validMinPrice, range_max = validMaxPrice,
                period = (if period0 = [] then ''6 weeks'' else period0)\<rparr>\<rparr>,
          g3))"

fun ensure_from :: "rng \<Rightarrow> store_entry list \<Rightarrow> nat \<Rightarrow> product list \<Rightarrow> product list \<times> rng" where
  "ensure_from g store_list index [] = ([], g)"
| "ensure_from g store_list index (product # products) =
     (let (p, g1) = ensure_product g store_list product index;
          (ps, g2) = ensure_from g1 store_list (Suc index) products
      in (p # ps, g2))"

definition ensureValidPriceData :: "rng \<Rightarrow> product list \<Rightarrow> store_entry list \<Rightarrow> product list \<times> rng" where
  "ensureValidPriceData g products store_list = ensure_from g store_list 0 products"

section \<open>The dashboard cache\<close>

text \<open>
  The freshness test of the effect,
  \<^verbatim>\<open>lastFetchTime && currentTime - Number.parseInt(lastFetchTime) < 3600000\<close>, with its
  constant as the parameter \<open>window\<close>. A missing item and the empty string are falsy.
\<close>

definition isCacheValid_window :: "int \<Rightarrow> string option \<Rightarrow> nat \<Rightarrow> bool" where
  "isCacheValid_window window lastFetchTime currentTime =
     (case lastFetchTime of
        None \<Rightarrow> False
      | Some s \<Rightarrow>
          s \<noteq> [] \<and>
          (case parseInt s of
             None \<Rightarrow> False
           | Some t \<Rightarrow> int currentTime - t < window))"

definition isCacheValid :: "string option \<Rightarrow> nat \<Rightarrow> bool" where
  "isCacheValid lastFetchTime currentTime = isCacheValid_window 3600000 lastFetchTime currentTime"

text \<open>
  What the request of \<^verbatim>\<open>fetchDashboardData\<close> can come back with: the promise of
  \<^verbatim>\<open>fetch\<close> rejects with an error of some message; the response is not 2xx, with the
  message of its JSON body (empty when the body has none or is not JSON); the response is
  2xx with a body; or it is 2xx and \<^verbatim>\<open>response.json()\<close> rejects with some message.
\<close>

datatype dashboard_response =
    FetchRejected string
  | NotOk string
  | OkBody dashboard
  | OkUnparsable string

text \<open>
  The value that \<^verbatim>\<open>fetchDashboardData\<close> builds from the body of the response
  (\<^verbatim>\<open>formattedData\<close>); a missing list of the body is the empty list.
\<close>

definition formattedData :: "rng \<Rightarrow> dashboard \<Rightarrow> dashboard \<times> rng" where
  "formattedData g data =
     (let (pantry, g1) = ensureValidPriceData g (pantryItems data) (stores data);
          (produce, g2) = ensureValidPriceData g1 (produceItems data) (stores data);
          (alerts, g3) = ensureValidPriceData g2 (buyAlerts data) (stores data)
      in (\<lparr>stores = stores data, pantryItems = pantry, produceItems = produce,
           buyAlerts = alerts, newsHighlights = newsHighlights data\<rparr>,
          g3))"

definition fetchDashboardData ::
  "rng \<Rightarrow> dashboard_response \<Rightarrow> nat \<Rightarrow> page \<times> storage \<Rightarrow> (page \<times> storage) \<times> rng" where
  "fetchDashboardData g response now ps =
     (let pg = (fst ps)\<lparr>dataLoading := True, error := None\<rparr>;
          ls = snd ps
      in case response of
           OkBody data \<Rightarrow>
             (let (formatted, g') = formattedData g data
              in ((pg\<lparr>dashboardData := Some formatted, dataLoaded := True,
                       dataLoading := False\<rparr>,
                   ls\<lparr>ls_dashboardData := Some (Encodes formatted),
                      ls_lastFetchTime := Some (toString now)\<rparr>),
                  g'))
         | FetchRejected m \<Rightarrow>
             ((pg\<lparr>error := Some m, dataLoading := False\<rparr>, ls), g)
         | NotOk m \<Rightarrow>
             ((pg\<lparr>error := Some (if m = [] then ''Failed to fetch dashboard data'' else m),
                   dataLoading := False\<rparr>, ls), g)
         | OkUnparsable m \<Rightarrow>
             ((pg\<lparr>error := Some m, dataLoading := False\<rparr>, ls), g))"

text \<open>
  \<^verbatim>\<open>fetchMyList\<close>: the request comes back with the items of the list or fails. The list
  is validated against the stores of the dashboard state
  (\<^verbatim>\<open>dashboardData?.stores || []\<close>) and written under \<^verbatim>\<open>myList\<close>; no timestamp is written.
\<close>

datatype mylist_response = ListFailed | ListItems "product list"

definition fetchMyList ::
  "rng \<Rightarrow> mylist_response \<Rightarrow> page \<times> storage \<Rightarrow> (page \<times> storage) \<times> rng" where
  "fetchMyList g response ps =
     (let pg = (fst ps)\<lparr>isMyListLoading := True\<rparr>;
          ls = snd ps
      in case response of
           ListItems items \<Rightarrow>
             (let (validatedItems, g1) =
                    ensureValidPriceData g items
                      (case dashboardData pg of None \<Rightarrow> [] | Some d \<Rightarrow> stores d)
              in ((pg\<lparr>myList := validatedItems, isMyListLoading := False\<rparr>,
                   ls\<lparr>ls_myList := Some (Encodes validatedItems)\<rparr>),
                  g1))
         | ListFailed \<Rightarrow> ((pg\<lparr>isMyListLoading := False\<rparr>, ls), g))"

text \<open>
  The dashboard half of the effect that runs when the page mounts. It either fills the state
  from the cache, or calls \<^verbatim>\<open>fetchDashboardData\<close>, or does nothing because the data is
  loaded already. \<^verbatim>\<open>JSON.parse\<close> throwing leads to the fetch as well.
\<close>

datatype effect_outcome = FromCache page rng | CallFetch | NoAction

text \<open>The value that the effect builds from the parsed cache entry (\<^verbatim>\<open>validatedData\<close>).\<close>

definition validatedData :: "rng \<Rightarrow> dashboard \<Rightarrow> dashboard \<times> rng" where
  "validatedData g parsedData =
     (let (pantry, g1) = ensureValidPriceData g (pantryItems parsedData) (stores parsedData);
          (produce, g2) = ensureValidPriceData g1 (produceItems parsedData) (stores parsedData);
          (alerts, g3) = ensureValidPriceData g2 (buyAlerts parsedData) (stores parsedData)
      in (parsedData\<lparr>pantryItems := pantry, produceItems := produce, buyAlerts := alerts\<rparr>,
          g3))"

definition useEffect_dashboard :: "rng \<Rightarrow> nat \<Rightarrow> storage \<Rightarrow> page \<Rightarrow> effect_outcome" where
  "useEffect_dashboard g currentTime ls pg =
     (if ls_dashboardData ls \<noteq> None \<and> isCacheValid (ls_lastFetchTime ls) currentTime
         \<and> \<not> dataLoaded pg then
        (case ls_dashboardData ls of
           Some (Encodes parsedData) \<Rightarrow>
             (let (validated, g') = validatedData g parsedData
              in FromCache
                   (pg\<lparr>dashboardData := Some validated, dataLoaded := True,
                       dataLoading := False\<rparr>)
                   g')
         | _ \<Rightarrow> CallFetch)
      else if \<not> dataLoaded pg then CallFetch
      else NoAction)"

text \<open>
  One load of the dashboard: the effect at \<open>currentTime\<close>, and, when it calls
  \<^verbatim>\<open>fetchDashboardData\<close>, the request coming back with \<open>response\<close> at the time
  \<open>now\<close>. The first component of the result counts the dashboard requests issued.
\<close>

definition load_dashboard ::
  "rng \<Rightarrow> nat \<Rightarrow> dashboard_response \<Rightarrow> nat \<Rightarrow> page \<times> storage \<Rightarrow> nat \<times> (page \<times> storage)" where
  "load_dashboard g currentTime response now ps =
     (case useEffect_dashboard g currentTime (snd ps) (fst ps) of
        FromCache pg g' \<Rightarrow> (0, (pg, snd ps))
      | CallFetch \<Rightarrow> (1, fst (fetchDashboardData g response now ps))
      | NoAction \<Rightarrow> (0, ps))"

text \<open>
  What the dashboard tab shows: the spinner while loading, else the error box with the
  retry button when \<^verbatim>\<open>error\<close> is truthy, else the content built from the dashboard state.
\<close>

datatype view = Spinner | ErrorBox string | Content "dashboard option"

definition render :: "page \<Rightarrow> view" where
  "render pg =
     (if dataLoading pg then Spinner
      else case error pg of
             None \<Rightarrow> Content (dashboardData pg)
           | Some m \<Rightarrow> if m = [] then Content (dashboardData pg) else ErrorBox m)"

text \<open>The message that a failed dashboard request leaves in \<^verbatim>\<open>error\<close>.\<close>

definition failure_message :: "dashboard_response \<Rightarrow> string option" where
  "failure_message response =
     (case response of
        FetchRejected m \<Rightarrow> Some m
      | NotOk m \<Rightarrow> Some (if m = [] then ''Failed to fetch dashboard data'' else m)
      | OkBody data \<Rightarrow> None
      | OkUnparsable m \<Rightarrow> Some m)"

text \<open>The state of the page when it mounts, and an empty storage.\<close>

definition initial_page :: page where
  "initial_page =
     \<lparr>dashboardData = None, myList = [], dataLoaded = False, dataLoading = True,
      isMyListLoading = False, error = None\<rparr>"

definition empty_storage :: storage where
  "empty_storage = \<lparr>ls_dashboardData = None, ls_myList = None, ls_lastFetchTime = None\<rparr>"


section \<open>Products that ensureValidPriceData leaves as they are\<close>

text \<open>The name that \<^verbatim>\<open>randomStore.name || randomStore.chainName\<close> yields for a store.\<close>

definition chosen_name :: "store_entry \<Rightarrow> string" where
  "chosen_name s = (if name s \<noteq> [] then name s else chainName s)"

text \<open>No store of the list goes by the placeholder name.\<close>

definition no_unknown_store :: "store_entry list \<Rightarrow> bool" where
  "no_unknown_store store_list = list_all (\<lambda>s. chosen_name s \<noteq> ''Unknown Store'') store_list"

text \<open>
  A price range that the third step of the callback keeps: not both ends 0, and an end that
  is 0 is reproduced from the other one.
\<close>

definition settled_range :: "rat \<Rightarrow> rat \<Rightarrow> bool" where
  "settled_range lo hi =
     (if lo = 0 \<and> hi = 0 then False
      else if lo = 0 \<and> 0 < hi then toFixed2 (hi * (8 / 10)) = lo
      else if 0 < lo \<and> hi = 0 then toFixed2 (lo * (12 / 10)) = hi
      else True)"

text \<open>A product with a store, a positive price, a period and such a range.\<close>

definition settled :: "product \<Rightarrow> bool" where
  "settled q =
     (case lowestPrice q of
        None \<Rightarrow> False
      | Some lp \<Rightarrow>
          (case priceRange q of
             None \<Rightarrow> False
           | Some pr \<Rightarrow>
               store lp \<noteq> [] \<and> store lp \<noteq> ''Unknown Store'' \<and> 0 < price lp
               \<and> period pr \<noteq> [] \<and> settled_range (range_min pr) (range_max pr)))"

section \<open>Properties of the event loop\<close>

lemma run_append: "run s (xs @ ys) p = run s ys (run s xs p)"
  by (simp add: run_def)

lemma run_Nil: "run s [] p = p"
  by (simp add: run_def)

lemma run_Cons: "run s (e # es) p = run s es (step s p e)"
  by (simp add: run_def)

lemma perform_requests: "requests (perform p a) = requests p"
  by (cases a) simp_all

lemma perform_in_flight: "in_flight (perform p a) = in_flight p"
  by (cases a) simp_all

lemma perform_timers: "timers (perform p a) = timers p + (if is_check a then 1 else 0)"
  by (cases a) simp_all

lemma perform_interval: "interval_armed (perform p a) = (interval_armed p \<and> a \<noteq> ClearInterval)"
  by (cases a) simp_all

lemma perform_all_requests: "requests (perform_all p acts) = requests p"
  unfolding perform_all_def by (induction acts arbitrary: p) (simp_all add: perform_requests)

lemma perform_all_in_flight: "in_flight (perform_all p acts) = in_flight p"
  unfolding perform_all_def by (induction acts arbitrary: p) (simp_all add: perform_in_flight)

lemma perform_all_timers:
  "timers (perform_all p acts) = timers p + length (filter is_check acts)"
  unfolding perform_all_def by (induction acts arbitrary: p) (simp_all add: perform_timers)

lemma perform_all_interval:
  "interval_armed (perform_all p acts) = (interval_armed p \<and> ClearInterval \<notin> set acts)"
  unfolding perform_all_def by (induction acts arbitrary: p) (auto simp: perform_interval)

lemma handler_checks_le_1: "length (filter is_check (handler s r)) \<le> 1"
  by (cases s; cases r rule: checkDataFetchStatus.cases)
     (simp_all add: checkDataFetchStatus_catch_def checkDataLoadingStatus_catch_def
        statusCheckInterval_catch_def)

lemma handler_interval_no_check: "filter is_check (statusCheckInterval_callback r) = []"
  by (cases r rule: checkDataFetchStatus.cases) (simp_all add: statusCheckInterval_catch_def)

lemma chain_inv_arm: "s \<noteq> SignupInterval \<Longrightarrow> chain_inv (arm s)"
  by (cases s) (simp_all add: chain_inv_def)

lemma chain_inv_step:
  assumes "s \<noteq> SignupInterval" "chain_inv p"
  shows "chain_inv (step s p e)"
proof (cases e)
  case TimerFires
  with assms show ?thesis by (auto simp: chain_inv_def issue_request_def)
next
  case IntervalTick
  with assms show ?thesis by (auto simp: chain_inv_def)
next
  case (Resolves r)
  have "length (filter is_check (handler s r)) \<le> 1" by (rule handler_checks_le_1)
  with assms Resolves show ?thesis
    by (auto simp: chain_inv_def perform_all_in_flight perform_all_timers perform_all_interval)
next
  case Unmount
  with assms show ?thesis by (cases s) (simp_all add: chain_inv_def perform_all_def)
qed

lemma chain_inv_run:
  "s \<noteq> SignupInterval \<Longrightarrow> chain_inv p \<Longrightarrow> chain_inv (run s evs p)"
  by (induction evs arbitrary: p) (simp_all add: run_Nil run_Cons chain_inv_step)

lemma stopped_step:
  assumes "stopped s p"
  shows "stopped s (step s p e) \<and> requests (step s p e) = requests p"
proof (cases e)
  case TimerFires
  with assms show ?thesis by (simp add: stopped_def)
next
  case IntervalTick
  with assms show ?thesis by (simp add: stopped_def)
next
  case (Resolves r)
  show ?thesis
  proof (cases "s = SignupInterval")
    case True
    with assms Resolves show ?thesis
      by (simp add: stopped_def perform_all_requests perform_all_timers perform_all_interval
            handler_interval_no_check)
  next
    case False
    with assms Resolves show ?thesis by (simp add: stopped_def)
  qed
next
  case Unmount
  with assms show ?thesis
    by (simp add: stopped_def perform_all_requests perform_all_timers perform_all_interval
          perform_all_in_flight) (cases s; simp)
qed

lemma stopped_run: "stopped s p \<Longrightarrow> requests (run s evs p) = requests p"
proof (induction evs arbitrary: p)
  case Nil
  show ?case by (simp add: run_Nil)
next
  case (Cons e evs)
  from Cons.prems have "stopped s (step s p e)" and "requests (step s p e) = requests p"
    using stopped_step by blast+
  with Cons.IH show ?case by (simp add: run_Cons)
qed

lemma interval_timers_step: "timers p = 0 \<Longrightarrow> timers (step SignupInterval p e) = 0"
  by (cases e)
     (simp_all add: perform_all_timers handler_interval_no_check issue_request_def)

lemma interval_timers_run: "timers p = 0 \<Longrightarrow> timers (run SignupInterval evs p) = 0"
  by (induction evs arbitrary: p) (simp_all add: run_Nil run_Cons interval_timers_step)



lemma check_failed_no_check:
  "check_failed r \<Longrightarrow> s \<noteq> SignupInterval \<Longrightarrow> filter is_check (handler s r) = []"
  by (cases s; cases r rule: checkDataFetchStatus.cases)
     (auto simp: check_failed_def checkDataFetchStatus_catch_def checkDataLoadingStatus_catch_def)

text \<open>A handler that schedules no check, run on the only request in flight of a chain, stops it.\<close>

lemma chain_stops:
  assumes s: "s \<noteq> SignupInterval"
    and nc: "filter is_check (handler s r) = []"
    and fl: "0 < in_flight (run s evs (arm s))"
  shows "requests (run s (evs @ Resolves r # evs') (arm s)) = requests (run s evs (arm s))"
proof -
  let ?p = "run s evs (arm s)"
  have inv: "chain_inv ?p" using s by (simp add: chain_inv_run chain_inv_arm)
  with fl have t: "timers ?p = 0" and f: "in_flight ?p = 1" and i: "\<not> interval_armed ?p"
    by (simp_all add: chain_inv_def)
  have "stopped s (step s ?p (Resolves r))"
    using t f i nc
    by (simp add: stopped_def perform_all_timers perform_all_interval perform_all_in_flight)
  then have "requests (run s evs' (step s ?p (Resolves r))) = requests (step s ?p (Resolves r))"
    by (rule stopped_run)
  also have "\<dots> = requests ?p" using f by (simp add: perform_all_requests)
  finally show ?thesis by (simp add: run_append run_Cons)
qed



section \<open>Writing and reading the timestamp\<close>

lemma digit_value_digit_char: "d < 10 \<Longrightarrow> digit_value (digit_char d) = Some d"
proof -
  assume "d < 10"
  then have "d \<in> {0, 1, 2, 3, 4, 5, 6, 7, 8, 9}" by auto
  then show ?thesis by (auto simp: digit_value_def digit_char_def)
qed

lemma is_digit_digit_char: "d < 10 \<Longrightarrow> is_digit 10 (digit_char d)"
  by (simp add: is_digit_def digit_value_digit_char)

lemma digit_char_not_space: "d < 10 \<Longrightarrow> \<not> is_space (digit_char d)"
proof -
  assume "d < 10"
  then have "d \<in> {0, 1, 2, 3, 4, 5, 6, 7, 8, 9}" by auto
  then show ?thesis by (auto simp: is_space_def digit_char_def)
qed

lemma digit_char_not_sign: "d < 10 \<Longrightarrow> digit_char d \<noteq> CHR ''-'' \<and> digit_char d \<noteq> CHR ''+''"
proof -
  assume "d < 10"
  then have "d \<in> {0, 1, 2, 3, 4, 5, 6, 7, 8, 9}" by auto
  then show ?thesis by (auto simp: digit_char_def)
qed

lemma digit_char_not_x: "d < 10 \<Longrightarrow> digit_char d \<noteq> CHR ''x'' \<and> digit_char d \<noteq> CHR ''X''"
proof -
  assume "d < 10"
  then have "d \<in> {0, 1, 2, 3, 4, 5, 6, 7, 8, 9}" by auto
  then show ?thesis by (auto simp: digit_char_def)
qed

text \<open>All characters of a decimal numeral are decimal digits.\<close>

lemma toString_digits: "\<forall>c \<in> set (toString n). \<exists>d < 10. c = digit_char d"
proof (induction n rule: toString.induct)
  case (1 n)
  show ?case
  proof (cases "n < 10")
    case True
    then show ?thesis by (subst toString.simps) auto
  next
    case False
    with 1 show ?thesis by (subst toString.simps) (auto intro: exI [of _ "n mod 10"])
  qed
qed

lemma toString_not_Nil: "toString n \<noteq> []"
  by (subst toString.simps) simp

lemma digits_value_append:
  "digits_value r (xs @ [c]) = digits_value r xs * r + (case digit_value c of None \<Rightarrow> 0 | Some d \<Rightarrow> d)"
  by (simp add: digits_value_def)

lemma digits_value_toString: "digits_value 10 (toString n) = n"
proof (induction n rule: toString.induct)
  case (1 n)
  show ?case
  proof (cases "n < 10")
    case True
    then show ?thesis
      by (subst toString.simps) (simp add: digits_value_def digit_value_digit_char)
  next
    case False
    with 1 show ?thesis
      by (subst toString.simps) (simp add: digits_value_append digit_value_digit_char)
  qed
qed

lemma parseInt_toString: "parseInt (toString n) = Some (int n)"
proof -
  let ?s = "toString n"
  have dig: "\<forall>c \<in> set ?s. \<exists>d < 10. c = digit_char d" by (rule toString_digits)
  obtain c cs where s: "?s = c # cs" using toString_not_Nil [of n] by (cases ?s) auto
  from dig s obtain d where d: "d < 10" "c = digit_char d" by auto
  have nsp: "dropWhile is_space ?s = ?s" using s d by (simp add: digit_char_not_space)
  have nsign: "take 1 ?s \<noteq> ''-''" "take 1 ?s \<noteq> ''+''"
    using s d digit_char_not_sign [of d] by simp_all
  have nhex: "take 2 ?s \<noteq> ''0x''" "take 2 ?s \<noteq> ''0X''"
  proof -
    show "take 2 ?s \<noteq> ''0x''"
    proof
      assume h: "take 2 ?s = ''0x''"
      then obtain cs' where "cs = CHR ''x'' # cs'" using s by (cases cs) auto
      then have "CHR ''x'' \<in> set ?s" using s by simp
      with dig obtain e where "e < 10" "CHR ''x'' = digit_char e" by auto
      then show False using digit_char_not_x [of e] by simp
    qed
    show "take 2 ?s \<noteq> ''0X''"
    proof
      assume h: "take 2 ?s = ''0X''"
      then obtain cs' where "cs = CHR ''X'' # cs'" using s by (cases cs) auto
      then have "CHR ''X'' \<in> set ?s" using s by simp
      with dig obtain e where "e < 10" "CHR ''X'' = digit_char e" by auto
      then show False using digit_char_not_x [of e] by simp
    qed
  qed
  have all: "takeWhile (is_digit 10) ?s = ?s"
    using dig by (auto simp: is_digit_digit_char)
  show ?thesis
    unfolding parseInt_def Let_def nsp
    by (simp only: nsign nhex all toString_not_Nil digits_value_toString if_False simp_thms)
       simp
qed

section \<open>The dashboard cache: auxiliary facts\<close>

lemma isCacheValid_toString:
  "isCacheValid_window w (Some (toString t)) now = (int now - int t < w)"
  by (simp add: isCacheValid_window_def parseInt_toString toString_not_Nil)

lemma useEffect_stale:
  assumes "\<not> isCacheValid (ls_lastFetchTime ls) t" "\<not> dataLoaded pg"
  shows "useEffect_dashboard g t ls pg = CallFetch"
  using assms by (simp add: useEffect_dashboard_def)

lemma fetchMyList_lastFetchTime:
  "ls_lastFetchTime (snd (fst (fetchMyList g response ps))) = ls_lastFetchTime (snd ps)"
  by (cases response) (simp_all add: fetchMyList_def Let_def split: prod.splits)

lemma Rep_draw_0: "Rep_draw (Abs_draw 0) = 0"
  by (simp add: Abs_draw_inverse)

lemma Rep_draw_half: "Rep_draw (Abs_draw (1 / 2)) = 1 / 2"
  by (simp add: Abs_draw_inverse)

text \<open>Evaluating \<open>toFixed2\<close> at a quotient of numerals.\<close>

lemma floor_rat_numeral: "\<lfloor>(numeral a :: rat) / numeral b\<rfloor> = numeral a div numeral b"
  using floor_divide_of_int_eq [of "numeral a" "numeral b", where ?'a = rat] by simp

lemma floor_rat_one: "\<lfloor>(1 :: rat) / numeral b\<rfloor> = 1 div numeral b"
  using floor_divide_of_int_eq [of 1 "numeral b", where ?'a = rat] by simp

section \<open>ensureValidPriceData applied twice\<close>

lemma choose_storeName_fixed:
  "storeName \<noteq> [] \<Longrightarrow> storeName \<noteq> ''Unknown Store'' \<Longrightarrow>
   choose_storeName g store_list storeName i = (storeName, g)"
  by (simp add: choose_storeName_def)

lemma choose_validPrice_fixed: "0 < p \<Longrightarrow> choose_validPrice g p = (p, g)"
  by (simp add: choose_validPrice_def)

lemma choose_validRange_fixed:
  "settled_range lo hi \<Longrightarrow> choose_validRange g lo hi = ((lo, hi), g)"
  by (auto simp: choose_validRange_def settled_range_def split: if_splits)

lemma settled_fixed: "settled q \<Longrightarrow> ensure_product g store_list q i = (q, g)"
  by (auto simp: settled_def ensure_product_def choose_storeName_fixed choose_validPrice_fixed
        choose_validRange_fixed split: option.splits)

lemma toFixed2_ge_1: "1 \<le> x \<Longrightarrow> 1 \<le> toFixed2 x"
proof -
  assume x: "1 \<le> x"
  then have "rat_of_int 100 \<le> x * 100 + 1 / 2" by simp
  then have "100 \<le> \<lfloor>x * 100 + 1 / 2\<rfloor>" by (simp only: le_floor_iff)
  then have "rat_of_int 100 \<le> rat_of_int \<lfloor>x * 100 + 1 / 2\<rfloor>" by (simp only: of_int_le_iff)
  then show ?thesis using x by (simp add: toFixed2_def)
qed

lemma Rep_draw_range: "0 \<le> Rep_draw d \<and> Rep_draw d < 1"
  using Rep_draw [of d] by simp

lemma random_index: "store_list \<noteq> [] \<Longrightarrow>
    nat \<lfloor>Rep_draw d * of_nat (length store_list)\<rfloor> < length store_list"
proof -
  assume "store_list \<noteq> []"
  then have n: "0 < length store_list" by simp
  let ?n = "length store_list"
  have "Rep_draw d * of_nat ?n < 1 * of_nat ?n"
    using Rep_draw_range [of d] n by (intro mult_strict_right_mono) simp_all
  then have "Rep_draw d * of_nat ?n < rat_of_int (int ?n)" by simp
  then have "\<lfloor>Rep_draw d * of_nat ?n\<rfloor> < int ?n" by (simp only: floor_less_iff)
  moreover have "0 \<le> \<lfloor>Rep_draw d * of_nat ?n\<rfloor>"
    using Rep_draw_range [of d] by simp
  ultimately show ?thesis by linarith
qed

lemma storeVariety_names: "storeVariety ! (i mod length storeVariety) \<noteq> []
    \<and> storeVariety ! (i mod length storeVariety) \<noteq> ''Unknown Store''"
proof -
  have "\<forall>x \<in> set storeVariety. x \<noteq> [] \<and> x \<noteq> ''Unknown Store''"
    by (simp add: storeVariety_def)
  moreover have "storeVariety ! (i mod length storeVariety) \<in> set storeVariety"
    by (intro nth_mem mod_less_divisor) (simp add: storeVariety_def)
  ultimately show ?thesis by blast
qed


lemma random_store_ok:
  assumes "no_unknown_store store_list" "store_list \<noteq> []"
  shows "chosen_name (store_list ! nat \<lfloor>Rep_draw d * of_nat (length store_list)\<rfloor>)
         \<noteq> ''Unknown Store''"
proof -
  have "store_list ! nat \<lfloor>Rep_draw d * of_nat (length store_list)\<rfloor> \<in> set store_list"
    using assms(2) by (intro nth_mem random_index)
  with assms(1) show ?thesis by (simp add: no_unknown_store_def list_all_iff)
qed

lemma choose_storeName_ok:
  assumes "no_unknown_store store_list"
  shows "fst (choose_storeName g store_list storeName i) \<noteq> []
       \<and> fst (choose_storeName g store_list storeName i) \<noteq> ''Unknown Store''"
proof (cases "store_list = []")
  case True
  then show ?thesis using storeVariety_names [of i] by (simp add: choose_storeName_def)
next
  case False
  from random_store_ok [OF assms False, of "fst g (snd g)"] storeVariety_names [of i]
  show ?thesis
    using False
    by (simp add: choose_storeName_def Math_random_def Let_def chosen_name_def split: if_splits)
qed

lemma choose_validPrice_pos: "0 < fst (choose_validPrice g p)"
proof (cases "0 < p")
  case True
  then show ?thesis by (simp add: choose_validPrice_def)
next
  case False
  have "1 \<le> Rep_draw (fst g (snd g)) * 10 + 1" using Rep_draw_range [of "fst g (snd g)"] by simp
  then have "1 \<le> toFixed2 (Rep_draw (fst g (snd g)) * 10 + 1)" by (rule toFixed2_ge_1)
  with False show ?thesis by (simp add: choose_validPrice_def Math_random_def)
qed

lemma choose_validRange_settled:
  "settled_range (fst (fst (choose_validRange g lo hi))) (snd (fst (choose_validRange g lo hi)))"
proof (cases "lo = 0 \<and> hi = 0")
  case True
  let ?r1 = "Rep_draw (fst g (snd g))"
  let ?r2 = "Rep_draw (fst g (Suc (snd g)))"
  have "1 \<le> ?r1 * 5 + 1" using Rep_draw_range [of "fst g (snd g)"] by simp
  then have a: "1 \<le> toFixed2 (?r1 * 5 + 1)" by (rule toFixed2_ge_1)
  have "0 \<le> ?r2 * 5" using Rep_draw_range [of "fst g (Suc (snd g))"] by simp
  with a have "1 \<le> toFixed2 (?r1 * 5 + 1) + ?r2 * 5" by linarith
  then have b: "1 \<le> toFixed2 (toFixed2 (?r1 * 5 + 1) + ?r2 * 5)" by (rule toFixed2_ge_1)
  from True a b show ?thesis
    by (simp add: choose_validRange_def Math_random_def Let_def settled_range_def)
next
  case False
  then show ?thesis
    by (auto simp: choose_validRange_def settled_range_def)
qed

lemma ensure_product_settled:
  assumes "no_unknown_store store_list"
  shows "settled (fst (ensure_product g store_list p i))"
  using choose_storeName_ok [OF assms] choose_validPrice_pos choose_validRange_settled
  by (simp add: ensure_product_def settled_def split_def Let_def)

lemma ensure_from_fixed: "list_all settled qs \<Longrightarrow> ensure_from g store_list i qs = (qs, g)"
  by (induction qs arbitrary: i) (simp_all add: settled_fixed)

lemma ensure_from_settled:
  "no_unknown_store store_list \<Longrightarrow> list_all settled (fst (ensure_from g store_list i ps))"
proof (induction ps arbitrary: g i)
  case Nil
  show ?case by simp
next
  case (Cons p ps)
  then show ?case
    using ensure_product_settled [OF Cons.prems, of g p i]
    by (simp add: split_def Let_def)
qed

lemma ensureValidPriceData_again:
  "no_unknown_store store_list \<Longrightarrow>
   ensureValidPriceData g' (fst (ensureValidPriceData g ps store_list)) store_list
   = (fst (ensureValidPriceData g ps store_list), g')"
  by (simp add: ensureValidPriceData_def ensure_from_fixed ensure_from_settled)

section \<open>What a fresh cache entry serves\<close>

lemma fetchDashboardData_ok:
  "fetchDashboardData g (OkBody data) now ps
   = (((fst ps)\<lparr>dataLoading := False, error := None,
         dashboardData := Some (fst (formattedData g data)), dataLoaded := True\<rparr>,
       (snd ps)\<lparr>ls_dashboardData := Some (Encodes (fst (formattedData g data))),
         ls_lastFetchTime := Some (toString now)\<rparr>),
      snd (formattedData g data))"
  by (simp add: fetchDashboardData_def split_def Let_def)

lemma validatedData_formattedData:
  assumes "no_unknown_store (stores data)"
  shows "fst (validatedData g (fst (formattedData g0 data))) = fst (formattedData g0 data)"
  using assms
  by (simp add: validatedData_def formattedData_def split_def Let_def ensureValidPriceData_again)

lemma useEffect_fresh_value:
  assumes "ls_dashboardData ls = Some (Encodes d)" "isCacheValid (ls_lastFetchTime ls) t"
    "\<not> dataLoaded pg"
  shows "useEffect_dashboard g t ls pg
       = FromCache (pg\<lparr>dashboardData := Some (fst (validatedData g d)), dataLoaded := True,
                       dataLoading := False\<rparr>) (snd (validatedData g d))"
  using assms by (simp add: useEffect_dashboard_def split_def Let_def)

section \<open>Claims about the pollers\<close>



text \<open>
  C2 (as amended). In the three \<^verbatim>\<open>setTimeout\<close> pollers (both login-by-email pollers and
  the signup data-loading poller) a status check that fails, by a transport error or a
  non-2xx response, ends the chain: no further status-check request is issued. In the
  interval poller the failed check is only logged: the handler is the single
  \<^verbatim>\<open>console.error\<close> call and the interval stays as it was.
\<close>

theorem failed_check_stops_chain:
  assumes "check_failed r" and "0 < in_flight (run s evs (arm s))"
  shows "(s \<noteq> SignupInterval \<longrightarrow>
            requests (run s (evs @ Resolves r # evs') (arm s)) = requests (run s evs (arm s)))
       \<and> (s = SignupInterval \<longrightarrow>
            handler s r = [ConsoleError ''Error checking status:'']
          \<and> interval_armed (run s (evs @ [Resolves r]) (arm s))
              = interval_armed (run s evs (arm s)))"
proof (intro conjI impI)
  assume "s \<noteq> SignupInterval"
  with assms show "requests (run s (evs @ Resolves r # evs') (arm s)) = requests (run s evs (arm s))"
    using chain_stops [OF _ check_failed_no_check] by blast
next
  assume s: "s = SignupInterval"
  from assms(1) show h: "handler s r = [ConsoleError ''Error checking status:'']"
    unfolding s
    by (cases r rule: checkDataFetchStatus.cases)
       (simp_all add: check_failed_def statusCheckInterval_catch_def)
  show "interval_armed (run s (evs @ [Resolves r]) (arm s)) = interval_armed (run s evs (arm s))"
    using h by (simp add: run_append run_Cons run_Nil perform_all_interval)
qed

theorem failed_check_stops_chain_witness:
  "check_failed (Response False (Body (Some ''pending'') None None))
   \<and> 0 < in_flight (run SignupDataLoading [] (arm SignupDataLoading))
   \<and> requests (run SignupDataLoading
        ([] @ Resolves (Response False (Body (Some ''pending'') None None))
           # [TimerFires, IntervalTick])
        (arm SignupDataLoading))
     = requests (run SignupDataLoading [] (arm SignupDataLoading))"
proof -
  have c: "check_failed (Response False (Body (Some ''pending'') None None))"
    by (simp add: check_failed_def)
  have f: "0 < in_flight (run SignupDataLoading [] (arm SignupDataLoading))"
    by (simp add: run_def)
  show ?thesis
    using c f failed_check_stops_chain [OF c f, of "[TimerFires, IntervalTick]"] by simp
qed

text \<open>
  The claim as stated fails at the interval poller: after a check that came back as a
  non-2xx response the next ticks issue the second and the third request.
\<close>

theorem failed_check_retried_counterexample:
  "check_failed (Response False Unparsable)
   \<and> requests (run SignupInterval [IntervalTick] (arm SignupInterval)) = 1
   \<and> requests (run SignupInterval
        [IntervalTick, Resolves (Response False Unparsable), IntervalTick,
         Resolves (Response False Unparsable), IntervalTick]
        (arm SignupInterval)) = 3"
  by (simp add: check_failed_def run_def issue_request_def perform_all_def
        statusCheckInterval_catch_def)

text \<open>
  C3 (as amended). In the three \<^verbatim>\<open>setTimeout\<close> pollers at most one status check is in
  flight at any point of any run, and while one is in flight no further check is scheduled:
  the next one is scheduled only by the handler of the previous response.
\<close>

theorem chain_sequential:
  assumes "s \<noteq> SignupInterval"
  shows "in_flight (run s evs (arm s)) \<le> 1
       \<and> (0 < in_flight (run s evs (arm s)) \<longrightarrow> timers (run s evs (arm s)) = 0)"
proof -
  have "chain_inv (run s evs (arm s))" using assms by (simp add: chain_inv_run chain_inv_arm)
  then show ?thesis by (simp add: chain_inv_def)
qed

theorem chain_sequential_witness:
  "LoginApi \<noteq> SignupInterval
   \<and> in_flight (run LoginApi
        [Resolves (Response True (Body (Some ''pending'') None None)), TimerFires]
        (arm LoginApi)) \<le> 1
   \<and> timers (run LoginApi
        [Resolves (Response True (Body (Some ''pending'') None None)), TimerFires]
        (arm LoginApi)) = 0"
proof -
  have s: "LoginApi \<noteq> SignupInterval" by simp
  have f: "0 < in_flight (run LoginApi
        [Resolves (Response True (Body (Some ''pending'') None None)), TimerFires]
        (arm LoginApi))"
    by (simp add: run_def perform_all_def issue_request_def)
  show ?thesis using s f chain_sequential [OF s] by blast
qed

text \<open>
  The claim as stated fails at the interval poller, whose ticks do not wait for the
  response: two ticks before any response leave two status checks in flight.
\<close>

theorem interval_overlap_counterexample:
  "in_flight (run SignupInterval [IntervalTick, IntervalTick] (arm SignupInterval)) = 2"
  by (simp add: run_def issue_request_def)




text \<open>
  C8 (as amended). Only the interval poller has a cancellation: when its view unmounts the
  cleanup clears the interval, and from then on no status-check request is issued, whatever
  the event loop delivers.
\<close>

theorem interval_cleanup_stops_ticks:
  "requests (run SignupInterval (evs @ Unmount # evs') (arm SignupInterval))
   = requests (run SignupInterval evs (arm SignupInterval))"
proof -
  let ?p = "run SignupInterval evs (arm SignupInterval)"
  have t: "timers ?p = 0" by (simp add: interval_timers_run)
  have "stopped SignupInterval (step SignupInterval ?p Unmount)"
    using t by (simp add: stopped_def perform_all_timers perform_all_interval)
  then have "requests (run SignupInterval evs' (step SignupInterval ?p Unmount))
           = requests (step SignupInterval ?p Unmount)"
    by (rule stopped_run)
  also have "\<dots> = requests ?p" by (simp add: perform_all_requests)
  finally show ?thesis by (simp add: run_append run_Cons)
qed

theorem interval_cleanup_stops_ticks_witness:
  "requests (run SignupInterval
      ([IntervalTick] @ Unmount # [IntervalTick, Resolves Rejected, IntervalTick, TimerFires])
      (arm SignupInterval))
   = requests (run SignupInterval [IntervalTick] (arm SignupInterval))"
  using interval_cleanup_stops_ticks
    [of "[IntervalTick]" "[IntervalTick, Resolves Rejected, IntervalTick, TimerFires]"]
  by simp

text \<open>
  The claim as stated fails twice. A login-by-email poller has no cleanup, so the timer
  scheduled before the view unmounted still fires and issues the second request. And in
  the interval poller a response that was in flight at the unmount is still handled: it
  sets state and navigates.
\<close>

theorem late_tick_counterexample:
  "requests (run LoginContent
      [Resolves (Response True (Body (Some ''pending'') None None)), Unmount]
      (arm LoginContent)) = 1
   \<and> requests (run LoginContent
      [Resolves (Response True (Body (Some ''pending'') None None)), Unmount, TimerFires]
      (arm LoginContent)) = 2
   \<and> effects (run SignupInterval [IntervalTick, Unmount] (arm SignupInterval)) = [ClearInterval]
   \<and> effects (run SignupInterval
        [IntervalTick, Unmount, Resolves (Response True (Body (Some ''completed'') None None))]
        (arm SignupInterval))
     = [ClearInterval, SetIsDataFetching False,
        RouterPush ''/login?message=Registration%20complete!%20You%20can%20now%20sign%20in.'',
        ClearInterval]"
  by (simp add: run_def issue_request_def perform_all_def)

text \<open>
  C9. The signup data-loading poller handles a 2xx response whose progress is at least 100
  as a success, whatever its status field says: it makes exactly the calls it makes for the
  status "completed" (the account-ready toast and the redirect to the login page) and the
  chain issues no further status-check request.
\<close>

theorem progress_100_is_success:
  assumes "100 \<le> p"
  shows "checkDataLoadingStatus (Response True (Body status (Some p) message))
       = [SetDataLoadingProgress p,
          SetDataLoadingMessage (message_or message ''Setting up your account...''),
          SetDataLoading False,
          ToastSuccess ''Your account is ready!'',
          RouterPush ''/login?message=Your account is ready! You can now sign in.'']
       \<and> checkDataLoadingStatus (Response True (Body status (Some p) message))
         = checkDataLoadingStatus (Response True (Body (Some ''completed'') (Some p) message))
       \<and> (0 < in_flight (run SignupDataLoading evs (arm SignupDataLoading)) \<longrightarrow>
            requests (run SignupDataLoading
              (evs @ Resolves (Response True (Body status (Some p) message)) # evs')
              (arm SignupDataLoading))
            = requests (run SignupDataLoading evs (arm SignupDataLoading)))"
proof -
  let ?r = "Response True (Body status (Some p) message)"
  have h: "checkDataLoadingStatus ?r
       = [SetDataLoadingProgress p,
          SetDataLoadingMessage (message_or message ''Setting up your account...''),
          SetDataLoading False,
          ToastSuccess ''Your account is ready!'',
          RouterPush ''/login?message=Your account is ready! You can now sign in.'']"
    using assms by (simp add: progress_ge_100_def progress_or_0_def)
  have c: "checkDataLoadingStatus ?r
         = checkDataLoadingStatus (Response True (Body (Some ''completed'') (Some p) message))"
    using assms by (simp add: progress_ge_100_def)
  have nc: "filter is_check (handler SignupDataLoading ?r) = []"
    using h by simp
  have "0 < in_flight (run SignupDataLoading evs (arm SignupDataLoading)) \<Longrightarrow>
            requests (run SignupDataLoading (evs @ Resolves ?r # evs') (arm SignupDataLoading))
            = requests (run SignupDataLoading evs (arm SignupDataLoading))"
    using chain_stops [OF _ nc] by blast
  with h c show ?thesis by blast
qed

theorem progress_100_is_success_witness:
  "(100::int) \<le> 100
   \<and> checkDataLoadingStatus (Response True (Body (Some ''pending'') (Some 100) None))
     = checkDataLoadingStatus (Response True (Body (Some ''completed'') (Some 100) None))
   \<and> 0 < in_flight (run SignupDataLoading [] (arm SignupDataLoading))
   \<and> requests (run SignupDataLoading
        ([] @ Resolves (Response True (Body (Some ''pending'') (Some 100) None)) # [TimerFires])
        (arm SignupDataLoading))
     = requests (run SignupDataLoading [] (arm SignupDataLoading))"
proof -
  have p: "(100::int) \<le> 100" by simp
  have f: "0 < in_flight (run SignupDataLoading [] (arm SignupDataLoading))"
    by (simp add: run_def)
  show ?thesis
    using p f progress_100_is_success [OF p, of "Some ''pending''" None "[]" "[TimerFires]"]
    by blast
qed

section \<open>Claims about the dashboard cache\<close>

text \<open>
  C4 (as amended). The freshness test on a timestamp written by the page is exactly the
  strict comparison of the age with 3600000 ms. After a successful
  \<^verbatim>\<open>fetchDashboardData\<close> at the time \<open>t0\<close>, which leaves its formatted value in the
  cache, a load of the page at the time \<open>t0 + age\<close> issues no dashboard request when
  \<open>age < 3600000\<close> and issues one otherwise: at an age of 30 minutes the cache is served,
  at an age of 90 minutes the data is fetched again. What a fresh load serves is the cached
  value passed through \<^verbatim>\<open>ensureValidPriceData\<close> once more; that is the cached value
  itself when no store goes by the name "Unknown Store".
\<close>

theorem cache_fresh_under_one_hour:
  "isCacheValid (Some (toString t)) now = (int now - int t < 3600000)
   \<and> fst (load_dashboard g (t0 + age) response now
        (pg\<lparr>dataLoaded := False\<rparr>, snd (fst (fetchDashboardData g0 (OkBody data) t0 ps0))))
     = (if age < 3600000 then 0 else 1)
   \<and> ls_dashboardData (snd (fst (fetchDashboardData g0 (OkBody data) t0 ps0)))
     = Some (Encodes (fst (formattedData g0 data)))
   \<and> (age < 3600000 \<longrightarrow>
        dashboardData (fst (snd (load_dashboard g (t0 + age) response now
          (pg\<lparr>dataLoaded := False\<rparr>, snd (fst (fetchDashboardData g0 (OkBody data) t0 ps0))))))
        = Some (fst (validatedData g (fst (formattedData g0 data)))))
   \<and> (no_unknown_store (stores data) \<longrightarrow>
        fst (validatedData g (fst (formattedData g0 data))) = fst (formattedData g0 data))
   \<and> (age < 3600000 \<and> no_unknown_store (stores data) \<longrightarrow>
        map_option Encodes (dashboardData (fst (snd (load_dashboard g (t0 + age) response now
          (pg\<lparr>dataLoaded := False\<rparr>, snd (fst (fetchDashboardData g0 (OkBody data) t0 ps0)))))))
        = ls_dashboardData (snd (fst (fetchDashboardData g0 (OkBody data) t0 ps0))))"
proof -
  let ?d = "fst (formattedData g0 data)"
  let ?ls = "snd (fst (fetchDashboardData g0 (OkBody data) t0 ps0))"
  let ?pg = "pg\<lparr>dataLoaded := False\<rparr>"
  have ls: "?ls = (snd ps0)\<lparr>ls_dashboardData := Some (Encodes ?d),
      ls_lastFetchTime := Some (toString t0)\<rparr>"
    by (simp add: fetchDashboardData_ok)
  have stored: "ls_dashboardData ?ls = Some (Encodes ?d)"
    by (simp add: ls)
  have v: "isCacheValid (ls_lastFetchTime ?ls) (t0 + age) = (age < 3600000)"
    by (simp add: ls isCacheValid_def isCacheValid_toString)
  have fresh: "useEffect_dashboard g (t0 + age) ?ls ?pg
       = FromCache (?pg\<lparr>dashboardData := Some (fst (validatedData g ?d)), dataLoaded := True,
                       dataLoading := False\<rparr>) (snd (validatedData g ?d))"
    if "age < 3600000"
    using that v by (intro useEffect_fresh_value) (simp_all add: ls)
  have stale: "useEffect_dashboard g (t0 + age) ?ls ?pg = CallFetch" if "\<not> age < 3600000"
    using that v by (intro useEffect_stale) simp_all
  have count: "fst (load_dashboard g (t0 + age) response now (?pg, ?ls))
      = (if age < 3600000 then 0 else 1)"
    using fresh stale by (simp add: load_dashboard_def)
  have served: "dashboardData (fst (snd (load_dashboard g (t0 + age) response now (?pg, ?ls))))
      = Some (fst (validatedData g ?d))"
    if "age < 3600000"
    using fresh [OF that] by (simp add: load_dashboard_def)
  have same: "fst (validatedData g ?d) = ?d" if "no_unknown_store (stores data)"
    using that by (rule validatedData_formattedData)
  have both: "map_option Encodes (dashboardData (fst (snd (load_dashboard g (t0 + age) response now
          (?pg, ?ls))))) = ls_dashboardData ?ls"
    if "age < 3600000" "no_unknown_store (stores data)"
    using served [OF that(1)] same [OF that(2)] stored by simp
  have test: "isCacheValid (Some (toString t)) now = (int now - int t < 3600000)"
    by (simp add: isCacheValid_def isCacheValid_toString)
  from test count stored served same both show ?thesis by blast
qed

theorem cache_fresh_under_one_hour_witness:
  "isCacheValid (Some (toString 1000)) (1000 + 1800000)
   \<and> \<not> isCacheValid (Some (toString 1000)) (1000 + 5400000)
   \<and> fst (load_dashboard (\<lambda>_. Abs_draw (1 / 2), 0) (1000 + 1800000) (NotOk []) (1000 + 1800000)
        (initial_page\<lparr>dataLoaded := False\<rparr>,
         snd (fst (fetchDashboardData (\<lambda>_. Abs_draw 0, 0)
           (OkBody
             \<lparr>stores = [\<lparr>name = ''Aldi'', chainName = ''''\<rparr>, \<lparr>name = '''', chainName = ''Kroger''\<rparr>],
              pantryItems =
                [\<lparr>product_id = ''1'', product_name = ''Rice'', lowestPrice = None,
                  priceRange = None\<rparr>],
              produceItems = [], buyAlerts = [], newsHighlights = []\<rparr>)
           1000 (initial_page, empty_storage))))) = 0
   \<and> fst (load_dashboard (\<lambda>_. Abs_draw (1 / 2), 0) (1000 + 5400000) (NotOk []) (1000 + 5400000)
        (initial_page\<lparr>dataLoaded := False\<rparr>,
         snd (fst (fetchDashboardData (\<lambda>_. Abs_draw 0, 0)
           (OkBody
             \<lparr>stores = [\<lparr>name = ''Aldi'', chainName = ''''\<rparr>, \<lparr>name = '''', chainName = ''Kroger''\<rparr>],
              pantryItems =
                [\<lparr>product_id = ''1'', product_name = ''Rice'', lowestPrice = None,
                  priceRange = None\<rparr>],
              produceItems = [], buyAlerts = [], newsHighlights = []\<rparr>)
           1000 (initial_page, empty_storage))))) = 1
   \<and> no_unknown_store [\<lparr>name = ''Aldi'', chainName = ''''\<rparr>, \<lparr>name = '''', chainName = ''Kroger''\<rparr>]
   \<and> map_option Encodes (dashboardData (fst (snd (load_dashboard (\<lambda>_. Abs_draw (1 / 2), 0) (1000 + 1800000) (NotOk []) (1000 + 1800000)
        (initial_page\<lparr>dataLoaded := False\<rparr>,
         snd (fst (fetchDashboardData (\<lambda>_. Abs_draw 0, 0)
           (OkBody
             \<lparr>stores = [\<lparr>name = ''Aldi'', chainName = ''''\<rparr>, \<lparr>name = '''', chainName = ''Kroger''\<rparr>],
              pantryItems =
                [\<lparr>product_id = ''1'', product_name = ''Rice'', lowestPrice = None,
                  priceRange = None\<rparr>],
              produceItems = [], buyAlerts = [], newsHighlights = []\<rparr>)
           1000 (initial_page, empty_storage))))))))
     = ls_dashboardData (snd (fst (fetchDashboardData (\<lambda>_. Abs_draw 0, 0)
           (OkBody
             \<lparr>stores = [\<lparr>name = ''Aldi'', chainName = ''''\<rparr>, \<lparr>name = '''', chainName = ''Kroger''\<rparr>],
              pantryItems =
                [\<lparr>product_id = ''1'', product_name = ''Rice'', lowestPrice = None,
                  priceRange = None\<rparr>],
              produceItems = [], buyAlerts = [], newsHighlights = []\<rparr>)
           1000 (initial_page, empty_storage))))"
proof -
  have n: "no_unknown_store [\<lparr>name = ''Aldi'', chainName = ''''\<rparr>, \<lparr>name = '''', chainName = ''Kroger''\<rparr>]"
    by (simp add: no_unknown_store_def chosen_name_def)
  note a = cache_fresh_under_one_hour
    [of 1000 "1000 + 1800000" "(\<lambda>_. Abs_draw (1 / 2), 0)" 1000 1800000 "NotOk []"
        initial_page "(\<lambda>_. Abs_draw 0, 0)"
        "\<lparr>stores = [\<lparr>name = ''Aldi'', chainName = ''''\<rparr>, \<lparr>name = '''', chainName = ''Kroger''\<rparr>],
              pantryItems =
                [\<lparr>product_id = ''1'', product_name = ''Rice'', lowestPrice = None,
                  priceRange = None\<rparr>],
              produceItems = [], buyAlerts = [], newsHighlights = []\<rparr>"
        "(initial_page, empty_storage)"]
  note b = cache_fresh_under_one_hour
    [of 1000 "1000 + 5400000" "(\<lambda>_. Abs_draw (1 / 2), 0)" 1000 5400000 "NotOk []"
        initial_page "(\<lambda>_. Abs_draw 0, 0)"
        "\<lparr>stores = [\<lparr>name = ''Aldi'', chainName = ''''\<rparr>, \<lparr>name = '''', chainName = ''Kroger''\<rparr>],
              pantryItems =
                [\<lparr>product_id = ''1'', product_name = ''Rice'', lowestPrice = None,
                  priceRange = None\<rparr>],
              produceItems = [], buyAlerts = [], newsHighlights = []\<rparr>"
        "(initial_page, empty_storage)"]
  from a b n show ?thesis by simp
qed

text \<open>
  The claim as stated fails where it says that the cached value is served. With a store
  named "Unknown Store" the fetch caches a product of that store; the load 30 minutes later
  issues no request, takes the name for the placeholder and draws a store again: it shows
  the product with the store "Aldi".
\<close>

theorem cached_value_changed_counterexample:
  "fst (load_dashboard (\<lambda>_. Abs_draw (1 / 2), 0) (1000 + 1800000) (NotOk []) (1000 + 1800000)
      (initial_page,
       snd (fst (fetchDashboardData (\<lambda>_. Abs_draw 0, 0)
       (OkBody
         \<lparr>stores = [\<lparr>name = ''Unknown Store'', chainName = ''''\<rparr>, \<lparr>name = ''Aldi'', chainName = ''''\<rparr>],
          pantryItems =
            [\<lparr>product_id = ''1'', product_name = ''Rice'',
              lowestPrice = Some \<lparr>price = 3, store = ''''\<rparr>,
              priceRange = Some \<lparr>range_min = 2, range_max = 4, period = ''6 weeks''\<rparr>\<rparr>],
          produceItems = [], buyAlerts = [], newsHighlights = []\<rparr>)
       1000 (initial_page, empty_storage))))) = 0
   \<and> ls_dashboardData
       (snd (fst (fetchDashboardData (\<lambda>_. Abs_draw 0, 0)
       (OkBody
         \<lparr>stores = [\<lparr>name = ''Unknown Store'', chainName = ''''\<rparr>, \<lparr>name = ''Aldi'', chainName = ''''\<rparr>],
          pantryItems =
            [\<lparr>product_id = ''1'', product_name = ''Rice'',
              lowestPrice = Some \<lparr>price = 3, store = ''''\<rparr>,
              priceRange = Some \<lparr>range_min = 2, range_max = 4, period = ''6 weeks''\<rparr>\<rparr>],
          produceItems = [], buyAlerts = [], newsHighlights = []\<rparr>)
       1000 (initial_page, empty_storage))))
     = Some (Encodes
         \<lparr>stores = [\<lparr>name = ''Unknown Store'', chainName = ''''\<rparr>, \<lparr>name = ''Aldi'', chainName = ''''\<rparr>],
          pantryItems =
            [\<lparr>product_id = ''1'', product_name = ''Rice'',
              lowestPrice = Some \<lparr>price = 3, store = ''Unknown Store''\<rparr>,
              priceRange = Some \<lparr>range_min = 2, range_max = 4, period = ''6 weeks''\<rparr>\<rparr>],
          produceItems = [], buyAlerts = [], newsHighlights = []\<rparr>)
   \<and> dashboardData (fst (snd (load_dashboard (\<lambda>_. Abs_draw (1 / 2), 0) (1000 + 1800000) (NotOk []) (1000 + 1800000)
      (initial_page,
       snd (fst (fetchDashboardData (\<lambda>_. Abs_draw 0, 0)
       (OkBody
         \<lparr>stores = [\<lparr>name = ''Unknown Store'', chainName = ''''\<rparr>, \<lparr>name = ''Aldi'', chainName = ''''\<rparr>],
          pantryItems =
            [\<lparr>product_id = ''1'', product_name = ''Rice'',
              lowestPrice = Some \<lparr>price = 3, store = ''''\<rparr>,
              priceRange = Some \<lparr>range_min = 2, range_max = 4, period = ''6 weeks''\<rparr>\<rparr>],
          produceItems = [], buyAlerts = [], newsHighlights = []\<rparr>)
       1000 (initial_page, empty_storage)))))))
     = Some
         \<lparr>stores = [\<lparr>name = ''Unknown Store'', chainName = ''''\<rparr>, \<lparr>name = ''Aldi'', chainName = ''''\<rparr>],
          pantryItems =
            [\<lparr>product_id = ''1'', product_name = ''Rice'',
              lowestPrice = Some \<lparr>price = 3, store = ''Aldi''\<rparr>,
              priceRange = Some \<lparr>range_min = 2, range_max = 4, period = ''6 weeks''\<rparr>\<rparr>],
          produceItems = [], buyAlerts = [], newsHighlights = []\<rparr>"
  by (simp add: load_dashboard_def useEffect_dashboard_def validatedData_def
        fetchDashboardData_def formattedData_def ensureValidPriceData_def ensure_product_def
        choose_storeName_def choose_validPrice_def choose_validRange_def Math_random_def
        Rep_draw_0 Rep_draw_half floor_rat_numeral floor_rat_one Let_def
        isCacheValid_def isCacheValid_toString initial_page_def empty_storage_def)

text \<open>
  C5 (as amended). A successful \<^verbatim>\<open>fetchDashboardData\<close> writes two items and no other:
  under \<^verbatim>\<open>dashboardData\<close> the value that it also puts into the page state, and under
  \<^verbatim>\<open>lastFetchTime\<close> the decimal text of the clock at that moment, which
  \<^verbatim>\<open>parseInt\<close> reads back as that number. So at that moment the freshness test holds for
  every positive window. A successful \<^verbatim>\<open>fetchMyList\<close> writes the list under
  \<^verbatim>\<open>myList\<close> and nothing else, a failed one writes nothing: the timestamp stays as it
  was.
\<close>

theorem dashboard_write_is_fresh:
  assumes "0 < window"
  shows "snd (fst (fetchDashboardData g (OkBody data) now ps))
         = (snd ps)\<lparr>ls_dashboardData := Some (Encodes (fst (formattedData g data))),
                    ls_lastFetchTime := Some (toString now)\<rparr>
       \<and> dashboardData (fst (fst (fetchDashboardData g (OkBody data) now ps)))
         = Some (fst (formattedData g data))
       \<and> parseInt (toString now) = Some (int now)
       \<and> isCacheValid_window window
           (ls_lastFetchTime (snd (fst (fetchDashboardData g (OkBody data) now ps)))) now
       \<and> snd (fst (fetchMyList g' (ListItems items) ps'))
         = (snd ps')\<lparr>ls_myList := Some (Encodes (myList (fst (fst
              (fetchMyList g' (ListItems items) ps')))))\<rparr>
       \<and> snd (fst (fetchMyList g' ListFailed ps')) = snd ps'
       \<and> ls_lastFetchTime (snd (fst (fetchMyList g' response ps'))) = ls_lastFetchTime (snd ps')"
proof -
  have w: "snd (fst (fetchDashboardData g (OkBody data) now ps))
         = (snd ps)\<lparr>ls_dashboardData := Some (Encodes (fst (formattedData g data))),
                    ls_lastFetchTime := Some (toString now)\<rparr>"
    by (simp add: fetchDashboardData_ok)
  have st: "dashboardData (fst (fst (fetchDashboardData g (OkBody data) now ps)))
         = Some (fst (formattedData g data))"
    by (simp add: fetchDashboardData_ok)
  have rt: "parseInt (toString now) = Some (int now)"
    by (rule parseInt_toString)
  have fr: "isCacheValid_window window
           (ls_lastFetchTime (snd (fst (fetchDashboardData g (OkBody data) now ps)))) now"
    using assms by (simp add: w isCacheValid_toString)
  have l1: "snd (fst (fetchMyList g' (ListItems items) ps'))
         = (snd ps')\<lparr>ls_myList := Some (Encodes (myList (fst (fst
              (fetchMyList g' (ListItems items) ps')))))\<rparr>"
    by (simp add: fetchMyList_def split_def Let_def)
  have l2: "snd (fst (fetchMyList g' ListFailed ps')) = snd ps'"
    by (simp add: fetchMyList_def)
  have l3: "ls_lastFetchTime (snd (fst (fetchMyList g' response ps'))) = ls_lastFetchTime (snd ps')"
    by (rule fetchMyList_lastFetchTime)
  from w st rt fr l1 l2 l3 show ?thesis by blast
qed

theorem dashboard_write_is_fresh_witness:
  "(0::int) < 1
   \<and> snd (fst (fetchDashboardData (\<lambda>_. Abs_draw 0, 0)
          (OkBody \<lparr>stores = [], pantryItems = [], produceItems = [], buyAlerts = [],
                   newsHighlights = []\<rparr>)
          1730000000000 (initial_page, empty_storage)))
     = empty_storage
         \<lparr>ls_dashboardData := Some (Encodes (fst (formattedData (\<lambda>_. Abs_draw 0, 0)
              \<lparr>stores = [], pantryItems = [], produceItems = [], buyAlerts = [],
               newsHighlights = []\<rparr>))),
          ls_lastFetchTime := Some (toString 1730000000000)\<rparr>
   \<and> parseInt (toString 1730000000000) = Some (int 1730000000000)
   \<and> isCacheValid_window 1
       (ls_lastFetchTime (snd (fst (fetchDashboardData (\<lambda>_. Abs_draw 0, 0)
          (OkBody \<lparr>stores = [], pantryItems = [], produceItems = [], buyAlerts = [],
                   newsHighlights = []\<rparr>)
          1730000000000 (initial_page, empty_storage)))))
       1730000000000"
proof -
  have w: "(0::int) < 1" by simp
  note a = dashboard_write_is_fresh
      [OF w, of "(\<lambda>_. Abs_draw 0, 0)"
         "\<lparr>stores = [], pantryItems = [], produceItems = [], buyAlerts = [],
           newsHighlights = []\<rparr>"
         1730000000000 "(initial_page, empty_storage)", unfolded snd_conv]
  from w a show ?thesis by blast
qed

text \<open>
  The claim as stated fails for the shopping list: written two hours after the last
  dashboard fetch, the list is in the cache, and the freshness test that guards it is false
  at that very moment.
\<close>

theorem list_write_not_fresh_counterexample:
  "ls_myList (snd (fst (fetchMyList (\<lambda>_. Abs_draw 0, 0) (ListItems [])
      (initial_page,
       \<lparr>ls_dashboardData = None, ls_myList = None, ls_lastFetchTime = Some ''1000''\<rparr>))))
     = Some (Encodes [])
   \<and> \<not> isCacheValid
       (ls_lastFetchTime (snd (fst (fetchMyList (\<lambda>_. Abs_draw 0, 0) (ListItems [])
          (initial_page,
           \<lparr>ls_dashboardData = None, ls_myList = None, ls_lastFetchTime = Some ''1000''\<rparr>)))))
       (1000 + 7200000)"
  by (simp add: fetchMyList_def ensureValidPriceData_def initial_page_def
        isCacheValid_def isCacheValid_window_def parseInt_def is_space_def is_digit_def
        digit_value_def digits_value_def)

text \<open>
  C6 (as amended). When the dashboard request fails, \<^verbatim>\<open>fetchDashboardData\<close> stores the
  message of the failure in \<^verbatim>\<open>error\<close> and changes neither the dashboard state nor the
  storage, whatever the storage holds. With a message that is not empty the page then shows
  the error box with that message in place of the content; with an empty message, which only
  a thrown error without a message yields and a non-2xx response never, it shows the content
  built from the unchanged dashboard state. In particular a load that finds a stale entry
  issues one request and, when it fails, ends in that state: the stale entry is neither
  served nor removed.
\<close>

theorem failed_fetch_shows_error:
  assumes "failure_message response = Some m"
  shows "fetchDashboardData g response now (pg, ls)
         = ((pg\<lparr>dataLoading := False, error := Some m\<rparr>, ls), g)
       \<and> render (pg\<lparr>dataLoading := False, error := Some m\<rparr>)
         = (if m = [] then Content (dashboardData pg) else ErrorBox m)
       \<and> (m = [] \<longrightarrow> response = FetchRejected [] \<or> response = OkUnparsable [])
       \<and> (if dataLoaded pg \<or> isCacheValid (ls_lastFetchTime ls) currentTime then True
          else load_dashboard g currentTime response now (pg, ls)
               = (1, (pg\<lparr>dataLoading := False, error := Some m\<rparr>, ls)))"
proof -
  have f: "fetchDashboardData g response now (pg, ls)
         = ((pg\<lparr>dataLoading := False, error := Some m\<rparr>, ls), g)"
    using assms by (cases response) (auto simp: failure_message_def fetchDashboardData_def)
  have r: "render (pg\<lparr>dataLoading := False, error := Some m\<rparr>)
         = (if m = [] then Content (dashboardData pg) else ErrorBox m)"
    by (simp add: render_def)
  have e: "response = FetchRejected [] \<or> response = OkUnparsable []" if "m = []"
    using assms that by (cases response) (auto simp: failure_message_def split: if_splits)
  have l: "load_dashboard g currentTime response now (pg, ls)
               = (1, (pg\<lparr>dataLoading := False, error := Some m\<rparr>, ls))"
    if "\<not> dataLoaded pg" "\<not> isCacheValid (ls_lastFetchTime ls) currentTime"
    using that f by (simp add: load_dashboard_def useEffect_stale)
  from f r e l show ?thesis by simp
qed

theorem failed_fetch_shows_error_witness:
  "failure_message (FetchRejected ''Failed to fetch'') = Some ''Failed to fetch''
   \<and> fetchDashboardData (\<lambda>_. Abs_draw 0, 0) (FetchRejected ''Failed to fetch'') 5401000
        (initial_page,
         \<lparr>ls_dashboardData = Some (Encodes
             \<lparr>stores = [], pantryItems =
               [\<lparr>product_id = ''1'', product_name = ''Rice'',
                 lowestPrice = Some \<lparr>price = 3, store = ''Walmart''\<rparr>,
                 priceRange = Some \<lparr>range_min = 2, range_max = 4, period = ''6 weeks''\<rparr>\<rparr>],
              produceItems = [], buyAlerts = [], newsHighlights = []\<rparr>),
          ls_myList = None, ls_lastFetchTime = Some ''1000''\<rparr>)
     = ((initial_page\<lparr>dataLoading := False, error := Some ''Failed to fetch''\<rparr>,
         \<lparr>ls_dashboardData = Some (Encodes
             \<lparr>stores = [], pantryItems =
               [\<lparr>product_id = ''1'', product_name = ''Rice'',
                 lowestPrice = Some \<lparr>price = 3, store = ''Walmart''\<rparr>,
                 priceRange = Some \<lparr>range_min = 2, range_max = 4, period = ''6 weeks''\<rparr>\<rparr>],
              produceItems = [], buyAlerts = [], newsHighlights = []\<rparr>),
          ls_myList = None, ls_lastFetchTime = Some ''1000''\<rparr>),
        (\<lambda>_. Abs_draw 0, 0))
   \<and> render (initial_page\<lparr>dataLoading := False, error := Some ''Failed to fetch''\<rparr>)
     = ErrorBox ''Failed to fetch''"
proof -
  have m: "failure_message (FetchRejected ''Failed to fetch'') = Some ''Failed to fetch''"
    by (simp add: failure_message_def)
  show ?thesis
    using m failed_fetch_shows_error [OF m, of "(\<lambda>_. Abs_draw 0, 0)" 5401000 initial_page]
    by simp
qed

text \<open>
  The claim as stated fails: with a dashboard entry that is 90 minutes old in the storage
  and a request that comes back with a non-2xx status, the page shows the error box, not
  the stale data.
\<close>

theorem stale_not_served_counterexample:
  "\<not> isCacheValid (Some ''1000'') (1000 + 5400000)
   \<and> render (fst (snd (load_dashboard (\<lambda>_. Abs_draw 0, 0) (1000 + 5400000) (NotOk []) (1000 + 5400000)
        (initial_page,
         \<lparr>ls_dashboardData = Some (Encodes
            \<lparr>stores = [], pantryItems =
               [\<lparr>product_id = ''1'', product_name = ''Rice'',
                 lowestPrice = Some \<lparr>price = 3, store = ''Walmart''\<rparr>,
                 priceRange = Some \<lparr>range_min = 2, range_max = 4, period = ''6 weeks''\<rparr>\<rparr>],
              produceItems = [], buyAlerts = [], newsHighlights = []\<rparr>),
          ls_myList = None,
          ls_lastFetchTime = Some ''1000''\<rparr>))))
     = ErrorBox ''Failed to fetch dashboard data''"
  by (simp add: isCacheValid_def isCacheValid_window_def parseInt_def is_space_def is_digit_def
        digit_value_def digits_value_def load_dashboard_def useEffect_dashboard_def
        fetchDashboardData_def initial_page_def render_def)

section \<open>Claims about ensureValidPriceData\<close>

text \<open>
  C10. The value that the dashboard shows and caches is not a function of the API response
  alone. On the same products, a run in which \<^verbatim>\<open>Math.random()\<close> returns 0 and a run in
  which it returns 1/2 give different results: for a product whose lowest price is 0 the
  price is 1 in one run and 6 in the other; for a product without a price range the range is
  1 to 1 and 3.5 to 6; for a product of the store "Unknown Store" the store is the first and
  the second of the available stores. The same response then leaves different values in the
  dashboard state and under \<^verbatim>\<open>dashboardData\<close> in the storage.
\<close>

theorem ensureValidPriceData_not_deterministic:
  "fst (ensureValidPriceData (\<lambda>_. Abs_draw 0, 0)
      [\<lparr>product_id = ''1'', product_name = ''Rice'',
        lowestPrice = Some \<lparr>price = 0, store = ''Walmart''\<rparr>,
        priceRange = Some \<lparr>range_min = 2, range_max = 4, period = ''6 weeks''\<rparr>\<rparr>] [])
   = [\<lparr>product_id = ''1'', product_name = ''Rice'',
        lowestPrice = Some \<lparr>price = 1, store = ''Walmart''\<rparr>,
        priceRange = Some \<lparr>range_min = 2, range_max = 4, period = ''6 weeks''\<rparr>\<rparr>]
   \<and> fst (ensureValidPriceData (\<lambda>_. Abs_draw (1 / 2), 0)
      [\<lparr>product_id = ''1'', product_name = ''Rice'',
        lowestPrice = Some \<lparr>price = 0, store = ''Walmart''\<rparr>,
        priceRange = Some \<lparr>range_min = 2, range_max = 4, period = ''6 weeks''\<rparr>\<rparr>] [])
   = [\<lparr>product_id = ''1'', product_name = ''Rice'',
        lowestPrice = Some \<lparr>price = 6, store = ''Walmart''\<rparr>,
        priceRange = Some \<lparr>range_min = 2, range_max = 4, period = ''6 weeks''\<rparr>\<rparr>]
   \<and> fst (ensureValidPriceData (\<lambda>_. Abs_draw 0, 0)
      [\<lparr>product_id = ''1'', product_name = ''Rice'',
        lowestPrice = Some \<lparr>price = 3, store = ''Walmart''\<rparr>,
        priceRange = None\<rparr>] [])
   = [\<lparr>product_id = ''1'', product_name = ''Rice'',
        lowestPrice = Some \<lparr>price = 3, store = ''Walmart''\<rparr>,
        priceRange = Some \<lparr>range_min = 1, range_max = 1, period = ''6 weeks''\<rparr>\<rparr>]
   \<and> fst (ensureValidPriceData (\<lambda>_. Abs_draw (1 / 2), 0)
      [\<lparr>product_id = ''1'', product_name = ''Rice'',
        lowestPrice = Some \<lparr>price = 3, store = ''Walmart''\<rparr>,
        priceRange = None\<rparr>] [])
   = [\<lparr>product_id = ''1'', product_name = ''Rice'',
        lowestPrice = Some \<lparr>price = 3, store = ''Walmart''\<rparr>,
        priceRange = Some \<lparr>range_min = 7 / 2, range_max = 6, period = ''6 weeks''\<rparr>\<rparr>]
   \<and> fst (ensureValidPriceData (\<lambda>_. Abs_draw 0, 0)
      [\<lparr>product_id = ''1'', product_name = ''Rice'',
        lowestPrice = Some \<lparr>price = 3, store = ''Unknown Store''\<rparr>,
        priceRange = Some \<lparr>range_min = 2, range_max = 4, period = ''6 weeks''\<rparr>\<rparr>]
      [\<lparr>name = ''Aldi'', chainName = ''''\<rparr>, \<lparr>name = '''', chainName = ''Kroger''\<rparr>])
   = [\<lparr>product_id = ''1'', product_name = ''Rice'',
        lowestPrice = Some \<lparr>price = 3, store = ''Aldi''\<rparr>,
        priceRange = Some \<lparr>range_min = 2, range_max = 4, period = ''6 weeks''\<rparr>\<rparr>]
   \<and> fst (ensureValidPriceData (\<lambda>_. Abs_draw (1 / 2), 0)
      [\<lparr>product_id = ''1'', product_name = ''Rice'',
        lowestPrice = Some \<lparr>price = 3, store = ''Unknown Store''\<rparr>,
        priceRange = Some \<lparr>range_min = 2, range_max = 4, period = ''6 weeks''\<rparr>\<rparr>]
      [\<lparr>name = ''Aldi'', chainName = ''''\<rparr>, \<lparr>name = '''', chainName = ''Kroger''\<rparr>])
   = [\<lparr>product_id = ''1'', product_name = ''Rice'',
        lowestPrice = Some \<lparr>price = 3, store = ''Kroger''\<rparr>,
        priceRange = Some \<lparr>range_min = 2, range_max = 4, period = ''6 weeks''\<rparr>\<rparr>]
   \<and> ls_dashboardData (snd (fst (fetchDashboardData (\<lambda>_. Abs_draw 0, 0)
        (OkBody \<lparr>stores = [], pantryItems =
           [\<lparr>product_id = ''1'', product_name = ''Rice'', lowestPrice = None,
             priceRange = Some \<lparr>range_min = 2, range_max = 4, period = ''6 weeks''\<rparr>\<rparr>],
           produceItems = [], buyAlerts = [], newsHighlights = []\<rparr>)
        1000 (initial_page, empty_storage))))
     \<noteq> ls_dashboardData (snd (fst (fetchDashboardData (\<lambda>_. Abs_draw (1 / 2), 0)
        (OkBody \<lparr>stores = [], pantryItems =
           [\<lparr>product_id = ''1'', product_name = ''Rice'', lowestPrice = None,
             priceRange = Some \<lparr>range_min = 2, range_max = 4, period = ''6 weeks''\<rparr>\<rparr>],
           produceItems = [], buyAlerts = [], newsHighlights = []\<rparr>)
        1000 (initial_page, empty_storage))))
   \<and> dashboardData (fst (fst (fetchDashboardData (\<lambda>_. Abs_draw 0, 0)
        (OkBody \<lparr>stores = [], pantryItems =
           [\<lparr>product_id = ''1'', product_name = ''Rice'', lowestPrice = None,
             priceRange = Some \<lparr>range_min = 2, range_max = 4, period = ''6 weeks''\<rparr>\<rparr>],
           produceItems = [], buyAlerts = [], newsHighlights = []\<rparr>)
        1000 (initial_page, empty_storage))))
     \<noteq> dashboardData (fst (fst (fetchDashboardData (\<lambda>_. Abs_draw (1 / 2), 0)
        (OkBody \<lparr>stores = [], pantryItems =
           [\<lparr>product_id = ''1'', product_name = ''Rice'', lowestPrice = None,
             priceRange = Some \<lparr>range_min = 2, range_max = 4, period = ''6 weeks''\<rparr>\<rparr>],
           produceItems = [], buyAlerts = [], newsHighlights = []\<rparr>)
        1000 (initial_page, empty_storage))))"
  by (simp add: ensureValidPriceData_def ensure_product_def choose_storeName_def choose_validPrice_def
        choose_validRange_def Math_random_def Rep_draw_0
        Rep_draw_half toFixed2_def floor_rat_numeral floor_rat_one Let_def storeVariety_def
        fetchDashboardData_def formattedData_def
        initial_page_def empty_storage_def)

end
